theory Spec2Isabelle
  imports Main "HOL-Library.Word"
begin

section \<open>Shorrt: a URL shortener over a relational table and a key-value cache\<close>

text \<open>
  The development embeds \<^verbatim>\<open>main.go\<close>: the token generator
  (\<^verbatim>\<open>stringWithCharset\<close>, \<^verbatim>\<open>generateShortLink\<close>) and the two handlers
  \<^verbatim>\<open>shortenURL\<close> (create) and \<^verbatim>\<open>redirectURL\<close> (resolve). The handlers
  work on three shared handles, the SQLite table \<^verbatim>\<open>urls\<close>, the Redis client and the
  random source; they are the fields of one explicit state that every handler takes and
  returns. What the collaborators answer during one request (the clock, and whether a
  call comes back with an error) is an explicit argument of the handler.
\<close>

subsection \<open>Data\<close>

text \<open>
  An instant of \<^verbatim>\<open>time.Time\<close>, counted from Go's zero \<^verbatim>\<open>Time\<close> (January 1 of
  year 1, 00:00:00 UTC): the zero value of the type is the instant 0.
\<close>

type_synonym time = int

type_synonym go_int = "64 word"

text \<open>The struct \<^verbatim>\<open>URL\<close>, which is both the decoded request and the response.\<close>

record URL =
  ID :: go_int
  Original :: string
  Short :: string
  QRCode :: string
  CustomShort :: string
  ExpirationDate :: time
  AccessCount :: go_int

text \<open>
  A row of the table \<^verbatim>\<open>urls\<close>. The columns \<^verbatim>\<open>custom_short\<close> and
  \<^verbatim>\<open>expiration_date\<close> are declared without \<^verbatim>\<open>NOT NULL\<close>: \<open>None\<close> is SQL's
  \<^verbatim>\<open>NULL\<close>, which \<^verbatim>\<open>sql.NullTime\<close> reads as \<^verbatim>\<open>Valid = false\<close>.
\<close>

record row =
  row_id :: int
  original :: string
  short :: string
  qr_code :: string
  custom_short :: "string option"
  expiration_date :: "time option"
  access_count :: go_int

text \<open>The process-wide random source: the sequence of raw draws still to come.\<close>

type_synonym rand_source = "nat \<Rightarrow> nat"

text \<open>
  The shared state: the table (rows in insertion order), the cache, the random source,
  the QR code files written so far, and the lines given to \<^verbatim>\<open>log.Println\<close> (each
  recorded by its fixed first argument).
\<close>

record world =
  db :: "row list"
  rdb :: "string \<rightharpoonup> string"
  seededRand :: rand_source
  files :: "string set"
  logs :: "string list"

text \<open>
  What the collaborators do during one request: the value of \<^verbatim>\<open>time.Now()\<close>, and for
  each kind of call whether it returns an error of its own (an I/O failure, as opposed to
  \<^verbatim>\<open>redis.Nil\<close>, \<^verbatim>\<open>sql.ErrNoRows\<close> or a constraint violation, which the state decides).
\<close>

record env =
  time_Now :: time
  cache_get_fails :: bool
  cache_set_fails :: bool
  db_query_fails :: bool
  db_exec_fails :: bool
  last_insert_id_fails :: bool
  qr_write_fails :: bool

datatype db_error = IOError | UniqueShort | UniqueCustomShort

datatype failure =
    BindJSON_failed
  | Validation_failed
  | QRCode_failed
  | Insert_failed db_error
  | LastInsertId_failed

text \<open>
  The body of a JSON response: \<^verbatim>\<open>gin.H{"error": err.Error()}\<close> for the call that
  failed, \<^verbatim>\<open>gin.H{"error": "..."}\<close> with a fixed text, or the link record.
\<close>

datatype body = err_Error failure | error_text string | url_json URL

text \<open>
  \<open>Recovered\<close> is the answer of \<^verbatim>\<open>gin.Recovery\<close> to a handler that panicked.
\<close>

datatype response = JSON nat body | Redirect nat string | Recovered nat

abbreviation StatusOK :: nat where "StatusOK \<equiv> 200"
abbreviation StatusMovedPermanently :: nat where "StatusMovedPermanently \<equiv> 301"
abbreviation StatusBadRequest :: nat where "StatusBadRequest \<equiv> 400"
abbreviation StatusNotFound :: nat where "StatusNotFound \<equiv> 404"
abbreviation StatusGone :: nat where "StatusGone \<equiv> 410"
abbreviation StatusInternalServerError :: nat where "StatusInternalServerError \<equiv> 500"

definition log_Println :: "string \<Rightarrow> world \<Rightarrow> world" where
  "log_Println msg w = w\<lparr>logs := logs w @ [msg]\<rparr>"

subsection \<open>Token generator\<close>

text \<open>
  \<^verbatim>\<open>seededRand.Intn(n)\<close> panics for \<open>n \<le> 0\<close> and otherwise returns a number below
  \<open>n\<close>, here the next raw draw reduced modulo \<open>n\<close>, and advances the source.
\<close>

definition Intn :: "rand_source \<Rightarrow> nat \<Rightarrow> (nat \<times> rand_source) option" where
  "Intn g n = (if n = 0 then None else Some (g 0 mod n, \<lambda>i. g (Suc i)))"

definition shortLinkLength :: nat where
  "shortLinkLength = 6"

definition charset :: string where
  "charset = ''abcdefghijklmnopqrstuvwxyzABCDEFGHIJKLMNOPQRSTUVWXYZ0123456789''"

text \<open>
  The loop \<^verbatim>\<open>for i := range b { b[i] = charset[seededRand.Intn(len(charset))] }\<close>
  fills the bytes from index 0 upwards, one draw each; \<open>None\<close> is the panic of
  \<^verbatim>\<open>Intn\<close>.
\<close>

fun stringWithCharset :: "nat \<Rightarrow> string \<Rightarrow> rand_source \<Rightarrow> (string \<times> rand_source) option" where
  "stringWithCharset 0 cs g = Some ([], g)"
| "stringWithCharset (Suc n) cs g =
     (case Intn g (length cs) of
        None \<Rightarrow> None
      | Some (k, g') \<Rightarrow>
          (case stringWithCharset n cs g' of
             None \<Rightarrow> None
           | Some (b, g'') \<Rightarrow> Some (cs ! k # b, g'')))"

definition generateShortLink :: "rand_source \<Rightarrow> (string \<times> rand_source) option" where
  "generateShortLink g = stringWithCharset shortLinkLength charset g"

text \<open>The letters a-z and A-Z and the digits 0-9, by character code.\<close>

definition alphanumeric :: "char \<Rightarrow> bool" where
  "alphanumeric c =
     (let n = (of_char c :: nat)
      in (97 \<le> n \<and> n \<le> 122) \<or> (65 \<le> n \<and> n \<le> 90) \<or> (48 \<le> n \<and> n \<le> 57))"

subsection \<open>The table \<^verbatim>\<open>urls\<close>\<close>

text \<open>The condition \<^verbatim>\<open>WHERE short = ? OR custom_short = ?\<close>, both parameters the same.\<close>

definition matches :: "string \<Rightarrow> row \<Rightarrow> bool" where
  "matches s r = (short r = s \<or> custom_short r = Some s)"

datatype query_result = QueryError | ErrNoRows | Scanned row

text \<open>\<^verbatim>\<open>db.QueryRow(...).Scan(...)\<close>: the first matching row.\<close>

definition db_QueryRow :: "env \<Rightarrow> row list \<Rightarrow> string \<Rightarrow> query_result" where
  "db_QueryRow e rows s =
     (if db_query_fails e then QueryError
      else case find (matches s) rows of None \<Rightarrow> ErrNoRows | Some r \<Rightarrow> Scanned r)"

text \<open>
  \<^verbatim>\<open>UPDATE urls SET access_count = ? WHERE short = ? OR custom_short = ?\<close>: every
  matching row takes the new count; \<open>None\<close> is an error of the call, the table as before.
\<close>

definition db_Update :: "env \<Rightarrow> row list \<Rightarrow> go_int \<Rightarrow> string \<Rightarrow> row list option" where
  "db_Update e rows n s =
     (if db_exec_fails e then None
      else Some (map (\<lambda>r. if matches s r then r\<lparr>access_count := n\<rparr> else r) rows))"

text \<open>\<^verbatim>\<open>id INTEGER PRIMARY KEY AUTOINCREMENT\<close>: one more than the largest id used.\<close>

definition next_id :: "row list \<Rightarrow> int" where
  "next_id rows = fold max (map row_id rows) 0 + 1"

text \<open>
  \<^verbatim>\<open>INSERT INTO urls (original, short, qr_code, custom_short, expiration_date)\<close>.
  The five parameters are Go values, four strings and a \<^verbatim>\<open>time.Time\<close>, none of which
  can be \<^verbatim>\<open>NULL\<close>: the row stores \<open>Some\<close> custom token (the empty string when the
  request had none) and \<open>Some\<close> expiration (the zero \<^verbatim>\<open>Time\<close> when the request had
  none). \<^verbatim>\<open>short\<close> and \<^verbatim>\<open>custom_short\<close> are \<^verbatim>\<open>UNIQUE\<close>; \<^verbatim>\<open>access_count\<close> takes its
  default 0.
\<close>

definition db_Insert ::
  "env \<Rightarrow> row list \<Rightarrow> string \<Rightarrow> string \<Rightarrow> string \<Rightarrow> string \<Rightarrow> time \<Rightarrow> db_error + (row list \<times> int)" where
  "db_Insert e rows orig sh qr cs ex =
     (if db_exec_fails e then Inl IOError
      else if sh \<in> set (map short rows) then Inl UniqueShort
      else if Some cs \<in> set (map custom_short rows) then Inl UniqueCustomShort
      else Inr (rows @ [\<lparr>row_id = next_id rows, original = orig, short = sh, qr_code = qr,
                          custom_short = Some cs, expiration_date = Some ex,
                          access_count = 0\<rparr>],
                next_id rows))"

subsection \<open>The cache\<close>

datatype cache_result = redis_Nil | CacheError | Cached string

definition rdb_Get :: "env \<Rightarrow> (string \<rightharpoonup> string) \<Rightarrow> string \<Rightarrow> cache_result" where
  "rdb_Get e m k =
     (if cache_get_fails e then CacheError
      else case m k of None \<Rightarrow> redis_Nil | Some v \<Rightarrow> Cached v)"

text \<open>
  \<^verbatim>\<open>rdb.Set(ctx, key, value, 0)\<close>: no expiration on the entry; \<open>None\<close> is an error
  of the call, the cache as before.
\<close>

definition rdb_Set ::
  "env \<Rightarrow> (string \<rightharpoonup> string) \<Rightarrow> string \<Rightarrow> string \<Rightarrow> (string \<rightharpoonup> string) option" where
  "rdb_Set e m k v = (if cache_set_fails e then None else Some (m(k \<mapsto> v)))"

subsection \<open>Create: \<^verbatim>\<open>shortenURL\<close>\<close>

text \<open>
  The tag \<^verbatim>\<open>validate:"required,url"\<close> on \<^verbatim>\<open>Original\<close>: the field is not empty and
  passes the validator's URL check, a parameter of the model.
\<close>

definition validate_Struct :: "(string \<Rightarrow> bool) \<Rightarrow> URL \<Rightarrow> bool" where
  "validate_Struct isURL u = (Original u \<noteq> [] \<and> isURL (Original u))"

text \<open>
  The request body is \<open>None\<close> when \<^verbatim>\<open>c.BindJSON\<close> returns an error and otherwise the
  decoded struct, in which a field the JSON left out has its zero value.
\<close>

definition shortenURL ::
  "(string \<Rightarrow> bool) \<Rightarrow> env \<Rightarrow> URL option \<Rightarrow> world \<Rightarrow> response \<times> world" where
  "shortenURL isURL e body w =
     (case body of
        None \<Rightarrow>
          (JSON StatusBadRequest (err_Error BindJSON_failed),
           log_Println ''Error binding JSON: '' w)
      | Some requestURL \<Rightarrow>
          if \<not> validate_Struct isURL requestURL
          then (JSON StatusBadRequest (err_Error Validation_failed),
                log_Println ''Validation error: '' w)
          else
            (case (if CustomShort requestURL \<noteq> []
                   then Some (CustomShort requestURL, seededRand w)
                   else generateShortLink (seededRand w)) of
               None \<Rightarrow> (Recovered StatusInternalServerError, w)
             | Some (sh, g) \<Rightarrow>
                 let w1 = w\<lparr>seededRand := g\<rparr>;
                     qrCodeFile = ''qrcodes/'' @ sh @ ''.png''
                 in if qr_write_fails e
                    then (JSON StatusInternalServerError (err_Error QRCode_failed),
                          log_Println ''Error generating QR code: '' w1)
                    else
                      let w2 = w1\<lparr>files := insert qrCodeFile (files w1)\<rparr>
                      in (case db_Insert e (db w2) (Original requestURL) sh qrCodeFile
                                 (CustomShort requestURL) (ExpirationDate requestURL) of
                            Inl err \<Rightarrow>
                              (JSON StatusInternalServerError (err_Error (Insert_failed err)),
                               log_Println ''Error inserting into database: '' w2)
                          | Inr (rows, i) \<Rightarrow>
                              let w3 = w2\<lparr>db := rows\<rparr>
                              in if last_insert_id_fails e
                                 then (JSON StatusInternalServerError (err_Error LastInsertId_failed),
                                       log_Println ''Error getting last insert ID: '' w3)
                                 else
                                   let w4 = (case rdb_Set e (rdb w3) sh (Original requestURL) of
                                               None \<Rightarrow> log_Println ''Error caching URL: '' w3
                                             | Some m \<Rightarrow> w3\<lparr>rdb := m\<rparr>)
                                   in (JSON StatusOK
                                         (url_json (requestURL\<lparr>Short := sh, QRCode := qrCodeFile,
                                                                 ID := word_of_int i\<rparr>)),
                                       w4))))"

subsection \<open>Resolve: \<^verbatim>\<open>redirectURL\<close>\<close>

text \<open>
  The three branches of the source in its order: \<^verbatim>\<open>err == redis.Nil\<close> (miss),
  \<^verbatim>\<open>err != nil\<close> (the lookup failed), and the hit. On a hit the second query reads only
  \<^verbatim>\<open>access_count\<close>, and any error of it, \<^verbatim>\<open>sql.ErrNoRows\<close> included, ends the request.
\<close>

definition redirectURL :: "env \<Rightarrow> string \<Rightarrow> world \<Rightarrow> response \<times> world" where
  "redirectURL e sh w =
     (case rdb_Get e (rdb w) sh of
        redis_Nil \<Rightarrow>
          (case db_QueryRow e (db w) sh of
             ErrNoRows \<Rightarrow>
               (JSON StatusNotFound (error_text ''URL not found''),
                log_Println ''No rows found for short link: '' w)
           | QueryError \<Rightarrow>
               (JSON StatusInternalServerError (error_text ''Internal server error''),
                log_Println ''Error querying database: '' w)
           | Scanned r \<Rightarrow>
               if (case expiration_date r of None \<Rightarrow> False | Some t \<Rightarrow> t < time_Now e)
               then (JSON StatusGone (error_text ''URL has expired''),
                     log_Println ''Link has expired: '' w)
               else
                 let accessCount = access_count r + 1;
                     w1 = (case db_Update e (db w) accessCount sh of
                             None \<Rightarrow> log_Println ''Error updating access count: '' w
                           | Some rows \<Rightarrow> w\<lparr>db := rows\<rparr>);
                     w2 = (case rdb_Set e (rdb w1) sh (original r) of
                             None \<Rightarrow> log_Println ''Error caching URL: '' w1
                           | Some m \<Rightarrow> w1\<lparr>rdb := m\<rparr>)
                 in (Redirect StatusMovedPermanently (original r), w2))
      | CacheError \<Rightarrow>
          (JSON StatusInternalServerError (error_text ''Internal server error''),
           log_Println ''Error querying cache: '' w)
      | Cached orig \<Rightarrow>
          (case db_QueryRow e (db w) sh of
             Scanned r \<Rightarrow>
               let accessCount = access_count r + 1;
                   w1 = (case db_Update e (db w) accessCount sh of
                           None \<Rightarrow> log_Println ''Error updating access count: '' w
                         | Some rows \<Rightarrow> w\<lparr>db := rows\<rparr>)
               in (Redirect StatusMovedPermanently orig, w1)
           | _ \<Rightarrow>
               (JSON StatusInternalServerError (error_text ''Internal server error''),
                log_Println ''Error querying database: '' w)))"

subsection \<open>Sequences of requests\<close>

text \<open>
  Requests are served one after the other, each with its own collaborator behaviour;
  the state a handler leaves is the state the next one finds.
\<close>

datatype request = Create env "URL option" | Resolve env string

definition handle :: "(string \<Rightarrow> bool) \<Rightarrow> request \<Rightarrow> world \<Rightarrow> response \<times> world" where
  "handle isURL rq w =
     (case rq of
        Create e body \<Rightarrow> shortenURL isURL e body w
      | Resolve e sh \<Rightarrow> redirectURL e sh w)"

definition serve :: "(string \<Rightarrow> bool) \<Rightarrow> request list \<Rightarrow> world \<Rightarrow> world" where
  "serve isURL rqs w = fold (\<lambda>rq w'. snd (handle isURL rq w')) rqs w"

text \<open>Resolving the same token once per element of the list, in order.\<close>

fun resolutions :: "env list \<Rightarrow> string \<Rightarrow> world \<Rightarrow> response list \<times> world" where
  "resolutions [] sh w = ([], w)"
| "resolutions (e # es) sh w =
     (let (r, w') = redirectURL e sh w;
          (rs, w'') = resolutions es sh w'
      in (r # rs, w''))"

definition is_redirect :: "response \<Rightarrow> bool" where
  "is_redirect r = (case r of Redirect _ _ \<Rightarrow> True | _ \<Rightarrow> False)"

subsection \<open>Concrete inputs\<close>

text \<open>
  A stand-in for the validator's URL check, used only to run the handlers on concrete
  requests: the text starts with \<^verbatim>\<open>https://\<close> and goes on.
\<close>

definition example_isURL :: "string \<Rightarrow> bool" where
  "example_isURL s = (take 8 s = ''https://'' \<and> 8 < length s)"

text \<open>The service at start: empty table, empty cache, no files, some random source.\<close>

definition world0 :: world where
  "world0 = \<lparr>db = [], rdb = Map.empty, seededRand = (\<lambda>i. 7 * i + 3), files = {}, logs = []\<rparr>"

text \<open>Instants in nanoseconds: 2020-01-01 and 2025-01-01, 00:00:00 UTC.\<close>

definition t_2020 :: time where
  "t_2020 = 63713433600 * 1000000000"

definition t_2025 :: time where
  "t_2025 = 63871286400 * 1000000000"

text \<open>A request served on 2025-01-01 during which no collaborator call fails.\<close>

definition env_ok :: env where
  "env_ok = \<lparr>time_Now = t_2025, cache_get_fails = False, cache_set_fails = False,
     db_query_fails = False, db_exec_fails = False, last_insert_id_fails = False,
     qr_write_fails = False\<rparr>"

text \<open>
  The struct decoded from a body with \<^verbatim>\<open>original\<close>, \<^verbatim>\<open>custom_short\<close> and
  \<^verbatim>\<open>expiration_date\<close>; an empty string and the instant 0 are what a missing member
  leaves.
\<close>

definition create_request :: "string \<Rightarrow> string \<Rightarrow> time \<Rightarrow> URL" where
  "create_request orig cs ex =
     \<lparr>ID = 0, Original = orig, Short = [], QRCode = [], CustomShort = cs,
      ExpirationDate = ex, AccessCount = 0\<rparr>"

text \<open>
  A link with custom token \<^verbatim>\<open>ex1\<close> that expired on 2020-01-01, and the state after its
  creation: with the cache warmed, and with the cache write of the creation failed.
\<close>

definition expired_link :: URL where
  "expired_link = create_request ''https://example.com'' ''ex1'' t_2020"

definition world_expired_cached :: world where
  "world_expired_cached = snd (shortenURL example_isURL env_ok (Some expired_link) world0)"

definition world_expired_cold :: world where
  "world_expired_cold =
     snd (shortenURL example_isURL (env_ok\<lparr>cache_set_fails := True\<rparr>) (Some expired_link) world0)"

text \<open>
  A link with custom token \<^verbatim>\<open>ex1\<close> and no expiration, and the state after its
  creation with the cache warmed.
\<close>

definition plain_link :: URL where
  "plain_link = create_request ''https://example.com'' ''ex1'' 0"

definition world_plain_cached :: world where
  "world_plain_cached = snd (shortenURL example_isURL env_ok (Some plain_link) world0)"

text \<open>The same link created while the cache write fails: the cache stays empty.\<close>

definition world_plain_cold :: world where
  "world_plain_cold =
     snd (shortenURL example_isURL (env_ok\<lparr>cache_set_fails := True\<rparr>) (Some plain_link) world0)"

text \<open>
  A link with custom token \<^verbatim>\<open>ex1\<close> that expires on 2030-01-01, created while the
  cache write fails.
\<close>

definition t_2030 :: time where
  "t_2030 = 64029052800 * 1000000000"

definition future_link :: URL where
  "future_link = create_request ''https://example.com'' ''ex1'' t_2030"

definition world_future_cold :: world where
  "world_future_cold =
     snd (shortenURL example_isURL (env_ok\<lparr>cache_set_fails := True\<rparr>) (Some future_link) world0)"

section \<open>Properties\<close>

subsection \<open>The token generator\<close>

lemma charset_length: "length charset = 62"
  by (simp add: charset_def)

lemma charset_distinct: "distinct charset"
  by (simp add: charset_def)

lemma charset_alphanumeric: "list_all alphanumeric charset"
  by (simp add: charset_def alphanumeric_def)

lemma stringWithCharset_total:
  "cs \<noteq> [] \<Longrightarrow>
   \<exists>b g'. stringWithCharset n cs g = Some (b, g') \<and> length b = n \<and> set b \<subseteq> set cs"
proof (induction n arbitrary: g)
  case 0
  then show ?case by simp
next
  case (Suc n)
  let ?g' = "\<lambda>i. g (Suc i)"
  from Suc obtain b g'' where
    h: "stringWithCharset n cs ?g' = Some (b, g'')" "length b = n" "set b \<subseteq> set cs"
    by blast
  have k: "g 0 mod length cs < length cs" using Suc.prems by simp
  show ?case using h k Suc.prems by (simp add: Intn_def)
qed

text \<open>
  C10. Every call of the token generator returns: the result is a string of exactly 6
  characters, each of them a symbol of \<open>charset\<close>, which has 62 distinct symbols, all
  of them letters a-z, A-Z or digits 0-9.
\<close>

theorem generateShortLink_six_alphanumeric:
  "\<exists>tok g'. generateShortLink g = Some (tok, g') \<and> length tok = 6 \<and>
     set tok \<subseteq> set charset \<and> list_all alphanumeric tok \<and>
     length charset = 62 \<and> distinct charset"
proof -
  have "charset \<noteq> []" using charset_length by auto
  then obtain tok g' where
    h: "stringWithCharset 6 charset g = Some (tok, g')" "length tok = 6" "set tok \<subseteq> set charset"
    using stringWithCharset_total [of charset 6 g] by blast
  have "list_all alphanumeric tok"
    using h(3) charset_alphanumeric by (auto simp: list_all_iff)
  then show ?thesis
    using h charset_length charset_distinct by (simp add: generateShortLink_def shortLinkLength_def)
qed

theorem generateShortLink_six_alphanumeric_witness:
  "\<exists>tok g'. generateShortLink (seededRand world0) = Some (tok, g') \<and> length tok = 6 \<and>
     set tok \<subseteq> set charset \<and> list_all alphanumeric tok \<and>
     length charset = 62 \<and> distinct charset"
  using generateShortLink_six_alphanumeric [of "seededRand world0"] by simp

subsection \<open>Create\<close>

text \<open>
  C9. A create request whose \<open>original\<close> is empty or fails the URL check is answered
  with status 400 and the validator's error; the table, the cache, the files and the
  random source are as before (only a log line is added), so no row is persisted.
\<close>

theorem shortenURL_invalid_original:
  "Original u = [] \<or> \<not> isURL (Original u) \<Longrightarrow>
   shortenURL isURL e (Some u) w =
       (JSON StatusBadRequest (err_Error Validation_failed),
        log_Println ''Validation error: '' w) \<and>
   db (snd (shortenURL isURL e (Some u) w)) = db w \<and>
   rdb (snd (shortenURL isURL e (Some u) w)) = rdb w \<and>
   files (snd (shortenURL isURL e (Some u) w)) = files w \<and>
   seededRand (snd (shortenURL isURL e (Some u) w)) = seededRand w"
  by (auto simp: shortenURL_def validate_Struct_def log_Println_def)

theorem shortenURL_invalid_original_witness:
  "\<not> example_isURL (Original (create_request ''not-a-url'' [] 0)) \<and>
   fst (shortenURL example_isURL env_ok (Some (create_request ''not-a-url'' [] 0))
          world_plain_cached) =
     JSON StatusBadRequest (err_Error Validation_failed) \<and>
   db (snd (shortenURL example_isURL env_ok (Some (create_request ''not-a-url'' [] 0))
          world_plain_cached)) = db world_plain_cached"
proof -
  have h: "\<not> example_isURL (Original (create_request ''not-a-url'' [] 0))"
    by (simp add: create_request_def example_isURL_def)
  show ?thesis
    using h shortenURL_invalid_original
      [where u = "create_request ''not-a-url'' [] 0" and isURL = example_isURL
         and e = env_ok and w = world_plain_cached]
    by (metis fst_conv)
qed

subsection \<open>Resolve\<close>

text \<open>
  C7. When the cache has no entry for the token and the store query finds a row whose
  expiration is present and before \<^verbatim>\<open>time.Now()\<close>, resolve answers 410 "URL has
  expired"; the table and the cache are as before: no counter update, no cache write.
\<close>

theorem redirectURL_expired_in_store:
  "rdb_Get e (rdb w) sh = redis_Nil \<Longrightarrow>
   db_QueryRow e (db w) sh = Scanned r \<Longrightarrow>
   expiration_date r = Some t \<Longrightarrow>
   t < time_Now e \<Longrightarrow>
   redirectURL e sh w =
       (JSON StatusGone (error_text ''URL has expired''),
        log_Println ''Link has expired: '' w) \<and>
   db (snd (redirectURL e sh w)) = db w \<and>
   rdb (snd (redirectURL e sh w)) = rdb w"
  by (simp add: redirectURL_def log_Println_def)

theorem redirectURL_expired_in_store_witness:
  "rdb_Get env_ok (rdb world_expired_cold) ''ex1'' = redis_Nil \<and>
   db_QueryRow env_ok (db world_expired_cold) ''ex1'' =
     Scanned \<lparr>row_id = 1, original = ''https://example.com'', short = ''ex1'',
              qr_code = ''qrcodes/ex1.png'', custom_short = Some ''ex1'',
              expiration_date = Some t_2020, access_count = 0\<rparr> \<and>
   t_2020 < time_Now env_ok \<and>
   fst (redirectURL env_ok ''ex1'' world_expired_cold) =
     JSON StatusGone (error_text ''URL has expired'') \<and>
   db (snd (redirectURL env_ok ''ex1'' world_expired_cold)) = db world_expired_cold \<and>
   rdb (snd (redirectURL env_ok ''ex1'' world_expired_cold)) = rdb world_expired_cold"
proof -
  let ?r = "\<lparr>row_id = 1, original = ''https://example.com'', short = ''ex1'',
              qr_code = ''qrcodes/ex1.png'', custom_short = Some ''ex1'',
              expiration_date = Some t_2020, access_count = 0\<rparr>"
  have h1: "rdb_Get env_ok (rdb world_expired_cold) ''ex1'' = redis_Nil"
    by code_simp
  have h2: "db_QueryRow env_ok (db world_expired_cold) ''ex1'' = Scanned ?r"
    by code_simp
  have h3: "expiration_date ?r = Some t_2020"
    by simp
  have h4: "t_2020 < time_Now env_ok"
    by code_simp
  show ?thesis
    using h1 h2 h4 redirectURL_expired_in_store [OF h1 h2 h3 h4] by (metis fst_conv)
qed

text \<open>
  C5, as the code has it. An error of the cache lookup is not recovered: the branch
  \<^verbatim>\<open>else if err != nil\<close> ends the request. With a link in store and cache, a
  failing lookup gives 500 and the table is untouched, where the same request with a
  working cache is redirected.
\<close>

theorem cache_lookup_error_counterexample:
  "fst (redirectURL (env_ok\<lparr>cache_get_fails := True\<rparr>) ''ex1'' world_plain_cached) =
     JSON StatusInternalServerError (error_text ''Internal server error'') \<and>
   db (snd (redirectURL (env_ok\<lparr>cache_get_fails := True\<rparr>) ''ex1'' world_plain_cached)) =
     db world_plain_cached \<and>
   fst (redirectURL env_ok ''ex1'' world_plain_cached) =
     Redirect StatusMovedPermanently ''https://example.com''"
  by code_simp

text \<open>
  C5, amended. For every resolve call, an error returned by the cache lookup (other than
  a miss) is logged and fails the request with 500 "Internal server error"; the store
  is neither read nor written and the cache is as before.
\<close>

theorem cache_lookup_error_fails_request:
  "cache_get_fails e \<Longrightarrow>
   redirectURL e sh w =
       (JSON StatusInternalServerError (error_text ''Internal server error''),
        log_Println ''Error querying cache: '' w) \<and>
   db (snd (redirectURL e sh w)) = db w \<and>
   rdb (snd (redirectURL e sh w)) = rdb w"
  by (simp add: redirectURL_def rdb_Get_def log_Println_def)

theorem cache_lookup_error_fails_request_witness:
  "cache_get_fails (env_ok\<lparr>cache_get_fails := True\<rparr>) \<and>
   fst (redirectURL (env_ok\<lparr>cache_get_fails := True\<rparr>) ''ex1'' world_plain_cached) =
     JSON StatusInternalServerError (error_text ''Internal server error'') \<and>
   db (snd (redirectURL (env_ok\<lparr>cache_get_fails := True\<rparr>) ''ex1'' world_plain_cached)) =
     db world_plain_cached \<and>
   rdb (snd (redirectURL (env_ok\<lparr>cache_get_fails := True\<rparr>) ''ex1'' world_plain_cached)) =
     rdb world_plain_cached"
proof -
  have h: "cache_get_fails (env_ok\<lparr>cache_get_fails := True\<rparr>)"
    by simp
  show ?thesis
    using h cache_lookup_error_fails_request [OF h, of "''ex1''" world_plain_cached]
    by (metis fst_conv)
qed

text \<open>
  C6, as the code has it. On a cache hit the original URL is already known when the
  handler reads the current count from the store; an error of that read ends the
  request with 500 instead of the redirect.
\<close>

theorem counter_read_error_counterexample:
  "rdb_Get (env_ok\<lparr>db_query_fails := True\<rparr>) (rdb world_plain_cached) ''ex1'' =
     Cached ''https://example.com'' \<and>
   fst (redirectURL (env_ok\<lparr>db_query_fails := True\<rparr>) ''ex1'' world_plain_cached) =
     JSON StatusInternalServerError (error_text ''Internal server error'')"
  by code_simp

text \<open>
  C6, amended. Once the link's row has been read, an error of the store's
  \<^verbatim>\<open>UPDATE\<close> of the access counter is logged and does not fail the request: the
  caller is redirected to the original URL (from the cache on a hit, from the row on a
  miss with the link not expired) and the table is as before. On a cache hit, an error
  of the store read of the current count, \<^verbatim>\<open>sql.ErrNoRows\<close> included, is logged and
  fails the request with 500.
\<close>

theorem counter_update_error_not_fatal:
  "(rdb_Get e (rdb w) sh = Cached orig \<and> db_QueryRow e (db w) sh = Scanned r \<and> db_exec_fails e \<longrightarrow>
      fst (redirectURL e sh w) = Redirect StatusMovedPermanently orig \<and>
      db (snd (redirectURL e sh w)) = db w \<and>
      ''Error updating access count: '' \<in> set (logs (snd (redirectURL e sh w)))) \<and>
   (rdb_Get e (rdb w) sh = redis_Nil \<and> db_QueryRow e (db w) sh = Scanned r \<and>
    (case expiration_date r of None \<Rightarrow> True | Some t \<Rightarrow> time_Now e \<le> t) \<and> db_exec_fails e \<longrightarrow>
      fst (redirectURL e sh w) = Redirect StatusMovedPermanently (original r) \<and>
      db (snd (redirectURL e sh w)) = db w \<and>
      ''Error updating access count: '' \<in> set (logs (snd (redirectURL e sh w)))) \<and>
   (rdb_Get e (rdb w) sh = Cached orig \<and> db_QueryRow e (db w) sh \<in> {QueryError, ErrNoRows} \<longrightarrow>
      redirectURL e sh w =
        (JSON StatusInternalServerError (error_text ''Internal server error''),
         log_Println ''Error querying database: '' w))"
  by (auto simp: redirectURL_def db_Update_def rdb_Set_def log_Println_def Let_def
      split: option.splits)

theorem counter_update_error_not_fatal_witness:
  "db_exec_fails (env_ok\<lparr>db_exec_fails := True\<rparr>) \<and>
   rdb_Get (env_ok\<lparr>db_exec_fails := True\<rparr>) (rdb world_plain_cached) ''ex1'' =
     Cached ''https://example.com'' \<and>
   db_QueryRow (env_ok\<lparr>db_exec_fails := True\<rparr>) (db world_plain_cached) ''ex1'' =
     Scanned \<lparr>row_id = 1, original = ''https://example.com'', short = ''ex1'',
              qr_code = ''qrcodes/ex1.png'', custom_short = Some ''ex1'',
              expiration_date = Some 0, access_count = 0\<rparr> \<and>
   fst (redirectURL (env_ok\<lparr>db_exec_fails := True\<rparr>) ''ex1'' world_plain_cached) =
     Redirect StatusMovedPermanently ''https://example.com'' \<and>
   db (snd (redirectURL (env_ok\<lparr>db_exec_fails := True\<rparr>) ''ex1'' world_plain_cached)) =
     db world_plain_cached \<and>
   rdb_Get (env_ok\<lparr>db_exec_fails := True\<rparr>) (rdb world_future_cold) ''ex1'' = redis_Nil \<and>
   db_QueryRow (env_ok\<lparr>db_exec_fails := True\<rparr>) (db world_future_cold) ''ex1'' =
     Scanned \<lparr>row_id = 1, original = ''https://example.com'', short = ''ex1'',
              qr_code = ''qrcodes/ex1.png'', custom_short = Some ''ex1'',
              expiration_date = Some t_2030, access_count = 0\<rparr> \<and>
   time_Now (env_ok\<lparr>db_exec_fails := True\<rparr>) \<le> t_2030 \<and>
   fst (redirectURL (env_ok\<lparr>db_exec_fails := True\<rparr>) ''ex1'' world_future_cold) =
     Redirect StatusMovedPermanently ''https://example.com'' \<and>
   db (snd (redirectURL (env_ok\<lparr>db_exec_fails := True\<rparr>) ''ex1'' world_future_cold)) =
     db world_future_cold \<and>
   rdb_Get (env_ok\<lparr>db_query_fails := True\<rparr>) (rdb world_plain_cached) ''ex1'' =
     Cached ''https://example.com'' \<and>
   db_QueryRow (env_ok\<lparr>db_query_fails := True\<rparr>) (db world_plain_cached) ''ex1'' = QueryError \<and>
   fst (redirectURL (env_ok\<lparr>db_query_fails := True\<rparr>) ''ex1'' world_plain_cached) =
     JSON StatusInternalServerError (error_text ''Internal server error'')"
proof -
  let ?e = "env_ok\<lparr>db_exec_fails := True\<rparr>"
  let ?q = "env_ok\<lparr>db_query_fails := True\<rparr>"
  let ?r = "\<lparr>row_id = 1, original = ''https://example.com'', short = ''ex1'',
              qr_code = ''qrcodes/ex1.png'', custom_short = Some ''ex1'',
              expiration_date = Some 0, access_count = 0\<rparr>"
  let ?r' = "\<lparr>row_id = 1, original = ''https://example.com'', short = ''ex1'',
              qr_code = ''qrcodes/ex1.png'', custom_short = Some ''ex1'',
              expiration_date = Some t_2030, access_count = 0\<rparr>"
  have a1: "db_exec_fails ?e" by simp
  have a2: "rdb_Get ?e (rdb world_plain_cached) ''ex1'' = Cached ''https://example.com''"
    by code_simp
  have a3: "db_QueryRow ?e (db world_plain_cached) ''ex1'' = Scanned ?r"
    by code_simp
  have b2: "rdb_Get ?e (rdb world_future_cold) ''ex1'' = redis_Nil"
    by code_simp
  have b3: "db_QueryRow ?e (db world_future_cold) ''ex1'' = Scanned ?r'"
    by code_simp
  have b4: "time_Now ?e \<le> t_2030"
    by code_simp
  have c2: "rdb_Get ?q (rdb world_plain_cached) ''ex1'' = Cached ''https://example.com''"
    by code_simp
  have c3: "db_QueryRow ?q (db world_plain_cached) ''ex1'' = QueryError"
    by code_simp
  have A: "fst (redirectURL ?e ''ex1'' world_plain_cached) =
             Redirect StatusMovedPermanently ''https://example.com'' \<and>
           db (snd (redirectURL ?e ''ex1'' world_plain_cached)) = db world_plain_cached"
    using a1 a2 a3
      counter_update_error_not_fatal [of ?e world_plain_cached "''ex1''" "''https://example.com''" ?r]
    by blast
  have B: "fst (redirectURL ?e ''ex1'' world_future_cold) =
             Redirect StatusMovedPermanently ''https://example.com'' \<and>
           db (snd (redirectURL ?e ''ex1'' world_future_cold)) = db world_future_cold"
    using a1 b2 b3 b4
      counter_update_error_not_fatal [of ?e world_future_cold "''ex1''" "''https://example.com''" ?r']
    by simp
  have C: "fst (redirectURL ?q ''ex1'' world_plain_cached) =
             JSON StatusInternalServerError (error_text ''Internal server error'')"
    using c2 c3
      counter_update_error_not_fatal [of ?q world_plain_cached "''ex1''" "''https://example.com''" ?r]
    by simp
  show ?thesis
    using a1 a2 a3 b2 b3 b4 c2 c3 A B C by blast
qed

text \<open>
  C1, at a failing input. A link is created with an expiration of 2020-01-01; the
  creation warms the cache. Resolved on 2025-01-01, the cache hit redirects to the
  original URL and counts the access: the hit branch never reads the expiration. The
  miss branch, on the same link with an empty cache, answers 410.
\<close>

theorem expired_link_resolves_from_cache:
  "fst (shortenURL example_isURL env_ok (Some expired_link) world0) =
     JSON StatusOK (url_json \<lparr>ID = 1, Original = ''https://example.com'', Short = ''ex1'',
       QRCode = ''qrcodes/ex1.png'', CustomShort = ''ex1'', ExpirationDate = t_2020,
       AccessCount = 0\<rparr>) \<and>
   map expiration_date (db world_expired_cached) = [Some t_2020] \<and>
   t_2020 < time_Now env_ok \<and>
   fst (redirectURL env_ok ''ex1'' world_expired_cached) =
     Redirect StatusMovedPermanently ''https://example.com'' \<and>
   map access_count (db (snd (redirectURL env_ok ''ex1'' world_expired_cached))) = [1] \<and>
   fst (redirectURL env_ok ''ex1'' world_expired_cold) =
     JSON StatusGone (error_text ''URL has expired'')"
  by code_simp

text \<open>
  C4, at a failing input. A link is created without an expiration while the cache write
  fails. The \<^verbatim>\<open>INSERT\<close> binds the zero \<^verbatim>\<open>time.Time\<close> of the request struct, so the
  row holds a present expiration at instant 0 rather than \<^verbatim>\<open>NULL\<close>; resolved on a
  cache miss, the check \<^verbatim>\<open>expirationDate.Valid && expirationDate.Time.Before(time.Now())\<close>
  holds and the answer is 410 "URL has expired".
\<close>

theorem link_without_expiration_expired:
  "ExpirationDate plain_link = 0 \<and>
   fst (shortenURL example_isURL (env_ok\<lparr>cache_set_fails := True\<rparr>) (Some plain_link) world0) =
     JSON StatusOK (url_json \<lparr>ID = 1, Original = ''https://example.com'', Short = ''ex1'',
       QRCode = ''qrcodes/ex1.png'', CustomShort = ''ex1'', ExpirationDate = 0,
       AccessCount = 0\<rparr>) \<and>
   map expiration_date (db world_plain_cold) = [Some 0] \<and>
   rdb world_plain_cold ''ex1'' = None \<and>
   fst (redirectURL env_ok ''ex1'' world_plain_cold) =
     JSON StatusGone (error_text ''URL has expired'')"
  by code_simp

subsection \<open>Two creations without a custom token\<close>

lemma generateShortLink_Some: "\<exists>tok g'. generateShortLink g = Some (tok, g')"
proof -
  have "charset \<noteq> []" using charset_length by auto
  then show ?thesis
    using stringWithCharset_total [of charset shortLinkLength g]
    by (auto simp: generateShortLink_def)
qed

lemma custom_short_update:
  "map custom_short (map (\<lambda>r. if matches s r then r\<lparr>access_count := n\<rparr> else r) rows) =
     map custom_short rows"
  by (induction rows) auto

lemma redirectURL_custom_short:
  "map custom_short (db (snd (redirectURL e sh w))) = map custom_short (db w)"
  by (auto simp: redirectURL_def db_Update_def rdb_Set_def log_Println_def Let_def custom_short_update
      split: cache_result.splits query_result.splits option.splits)

lemma shortenURL_custom_short:
  "set (map custom_short (db w)) \<subseteq> set (map custom_short (db (snd (shortenURL isURL e body w))))"
  by (auto simp: shortenURL_def db_Insert_def rdb_Set_def log_Println_def Let_def
      split: option.splits sum.splits prod.splits if_splits)

lemma serve_custom_short:
  "set (map custom_short (db w)) \<subseteq> set (map custom_short (db (serve isURL rqs w)))"
proof (induction rqs arbitrary: w)
  case Nil
  then show ?case by (simp add: serve_def)
next
  case (Cons rq rqs)
  have step: "set (map custom_short (db w)) \<subseteq> set (map custom_short (db (snd (handle isURL rq w))))"
  proof (cases rq)
    case (Create e body)
    then show ?thesis using shortenURL_custom_short [of w isURL e body] by (simp add: handle_def)
  next
    case (Resolve e sh)
    then show ?thesis using redirectURL_custom_short [of e sh w] by (simp add: handle_def)
  qed
  have "serve isURL (rq # rqs) w = serve isURL rqs (snd (handle isURL rq w))"
    by (simp add: serve_def)
  then show ?case using step Cons.IH [of "snd (handle isURL rq w)"] by auto
qed

lemma shortenURL_OK_stores_custom:
  "shortenURL isURL e (Some u) w = (JSON StatusOK (url_json l), w1) \<Longrightarrow>
   Some (CustomShort u) \<in> set (map custom_short (db w1))"
  by (auto simp: shortenURL_def db_Insert_def rdb_Set_def log_Println_def Let_def
      split: option.splits sum.splits prod.splits if_splits)

lemma shortenURL_duplicate_custom:
  assumes "Some (CustomShort u) \<in> set (map custom_short (db w))"
  shows "fst (shortenURL isURL e (Some u) w) \<in>
           {JSON StatusBadRequest (err_Error Validation_failed),
            JSON StatusInternalServerError (err_Error QRCode_failed),
            JSON StatusInternalServerError (err_Error (Insert_failed IOError)),
            JSON StatusInternalServerError (err_Error (Insert_failed UniqueShort)),
            JSON StatusInternalServerError (err_Error (Insert_failed UniqueCustomShort))}
         \<and> db (snd (shortenURL isURL e (Some u) w)) = db w
         \<and> (validate_Struct isURL u \<and> \<not> qr_write_fails e \<and> \<not> db_exec_fails e \<longrightarrow>
              fst (shortenURL isURL e (Some u) w) \<in>
                {JSON StatusInternalServerError (err_Error (Insert_failed UniqueShort)),
                 JSON StatusInternalServerError (err_Error (Insert_failed UniqueCustomShort))})"
proof (cases "CustomShort u = []")
  case True
  obtain tok g' where g: "generateShortLink (seededRand w) = Some (tok, g')"
    using generateShortLink_Some by blast
  show ?thesis using assms True g
    by (auto simp: shortenURL_def db_Insert_def log_Println_def Let_def)
next
  case False
  show ?thesis using assms False
    by (auto simp: shortenURL_def db_Insert_def log_Println_def Let_def)
qed

text \<open>
  C2. Once a create request without a custom token has succeeded, the table holds a row
  whose \<^verbatim>\<open>custom_short\<close> is the empty string, and no later request removes it. So
  every later create request without a custom token, whatever was served in between,
  returns no link record and adds no row; when it gets as far as the \<^verbatim>\<open>INSERT\<close> and
  the store itself works, the answer is 500 with a uniqueness violation.
\<close>

theorem second_default_token_create_fails:
  assumes "shortenURL isURL e1 (Some u1) w = (JSON StatusOK (url_json l1), w1)"
    and "CustomShort u1 = []"
    and "CustomShort u2 = []"
  shows "(\<forall>l2. fst (shortenURL isURL e2 (Some u2) (serve isURL rqs w1)) \<noteq> JSON StatusOK (url_json l2)) \<and>
         db (snd (shortenURL isURL e2 (Some u2) (serve isURL rqs w1))) = db (serve isURL rqs w1) \<and>
         (validate_Struct isURL u2 \<and> \<not> qr_write_fails e2 \<and> \<not> db_exec_fails e2 \<longrightarrow>
            fst (shortenURL isURL e2 (Some u2) (serve isURL rqs w1)) \<in>
              {JSON StatusInternalServerError (err_Error (Insert_failed UniqueShort)),
               JSON StatusInternalServerError (err_Error (Insert_failed UniqueCustomShort))})"
proof -
  have "Some [] \<in> set (map custom_short (db w1))"
    using shortenURL_OK_stores_custom [OF assms(1)] assms(2) by simp
  then have "Some (CustomShort u2) \<in> set (map custom_short (db (serve isURL rqs w1)))"
    using serve_custom_short [of w1 isURL rqs] assms(3) by auto
  from shortenURL_duplicate_custom [OF this, of isURL e2]
  show ?thesis by auto
qed

theorem second_default_token_create_fails_witness:
  "shortenURL example_isURL env_ok (Some (create_request ''https://example.com'' [] 0)) world0 =
     (JSON StatusOK (url_json \<lparr>ID = 1, Original = ''https://example.com'', Short = ''dkryFM'',
        QRCode = ''qrcodes/dkryFM.png'', CustomShort = [], ExpirationDate = 0,
        AccessCount = 0\<rparr>),
      snd (shortenURL example_isURL env_ok
             (Some (create_request ''https://example.com'' [] 0)) world0)) \<and>
   CustomShort (create_request ''https://example.com'' [] 0) = [] \<and>
   CustomShort (create_request ''https://example.org'' [] 0) = [] \<and>
   validate_Struct example_isURL (create_request ''https://example.org'' [] 0) \<and>
   \<not> qr_write_fails env_ok \<and> \<not> db_exec_fails env_ok \<and>
   fst (shortenURL example_isURL env_ok (Some (create_request ''https://example.org'' [] 0))
          (serve example_isURL [Resolve env_ok ''dkryFM'']
             (snd (shortenURL example_isURL env_ok
                     (Some (create_request ''https://example.com'' [] 0)) world0)))) \<in>
     {JSON StatusInternalServerError (err_Error (Insert_failed UniqueShort)),
      JSON StatusInternalServerError (err_Error (Insert_failed UniqueCustomShort))}"
proof -
  let ?u1 = "create_request ''https://example.com'' [] 0"
  let ?u2 = "create_request ''https://example.org'' [] 0"
  let ?l1 = "\<lparr>ID = 1, Original = ''https://example.com'', Short = ''dkryFM'',
        QRCode = ''qrcodes/dkryFM.png'', CustomShort = [], ExpirationDate = 0,
        AccessCount = 0\<rparr>"
  let ?w1 = "snd (shortenURL example_isURL env_ok (Some ?u1) world0)"
  have "fst (shortenURL example_isURL env_ok (Some ?u1) world0) = JSON StatusOK (url_json ?l1)"
    by code_simp
  then have h1: "shortenURL example_isURL env_ok (Some ?u1) world0 = (JSON StatusOK (url_json ?l1), ?w1)"
    by (simp add: prod_eq_iff)
  have h2: "CustomShort ?u1 = []" and h3: "CustomShort ?u2 = []"
    by (simp_all add: create_request_def)
  have h4: "validate_Struct example_isURL ?u2"
    by code_simp
  have h5: "\<not> qr_write_fails env_ok" and h6: "\<not> db_exec_fails env_ok"
    by (simp_all add: env_ok_def)
  show ?thesis
    using h1 h2 h3 h4 h5 h6
      second_default_token_create_fails [OF h1 h2 h3,
        where ?e2.0 = env_ok and rqs = "[Resolve env_ok ''dkryFM'']"]
    by blast
qed

subsection \<open>Create, then resolve\<close>

text \<open>
  C3, as the code has it. A valid URL is shortened; the following resolve of the
  returned token, during which the store read fails, answers 500 and not the URL.
\<close>

theorem round_trip_counterexample:
  "example_isURL ''https://example.com'' \<and>
   fst (shortenURL example_isURL env_ok (Some (create_request ''https://example.com'' [] 0)) world0) =
     JSON StatusOK (url_json \<lparr>ID = 1, Original = ''https://example.com'', Short = ''dkryFM'',
       QRCode = ''qrcodes/dkryFM.png'', CustomShort = [], ExpirationDate = 0,
       AccessCount = 0\<rparr>) \<and>
   fst (redirectURL (env_ok\<lparr>db_query_fails := True\<rparr>) ''dkryFM''
          (snd (shortenURL example_isURL env_ok
                  (Some (create_request ''https://example.com'' [] 0)) world0))) =
     JSON StatusInternalServerError (error_text ''Internal server error'')"
  by code_simp

lemma shortenURL_OK_effects:
  "shortenURL isURL e (Some u) w = (JSON StatusOK (url_json l), w1) \<Longrightarrow>
   \<not> cache_set_fails e \<Longrightarrow>
   rdb w1 (Short l) = Some (Original u) \<and> Short l \<in> set (map short (db w1))"
  by (auto simp: shortenURL_def db_Insert_def rdb_Set_def log_Println_def Let_def
      split: option.splits sum.splits prod.splits if_splits)

text \<open>
  C3, amended. For every create request without an expiration that succeeds and whose
  cache write succeeded, a following resolve of the returned token whose cache lookup
  and store read do not fail redirects to the request's original URL.
\<close>

theorem create_then_resolve:
  assumes "shortenURL isURL e1 (Some u) w = (JSON StatusOK (url_json l), w1)"
    and "ExpirationDate u = 0"
    and "\<not> cache_set_fails e1"
    and "\<not> cache_get_fails e2"
    and "\<not> db_query_fails e2"
  shows "fst (redirectURL e2 (Short l) w1) = Redirect StatusMovedPermanently (Original u)"
proof -
  from shortenURL_OK_effects [OF assms(1) assms(3)]
  have c: "rdb w1 (Short l) = Some (Original u)" and d: "Short l \<in> set (map short (db w1))"
    by simp_all
  from d have "find (matches (Short l)) (db w1) \<noteq> None"
    by (auto simp: find_None_iff matches_def)
  then obtain r where "find (matches (Short l)) (db w1) = Some r" by auto
  then show ?thesis using c assms(4,5)
    by (simp add: redirectURL_def rdb_Get_def db_QueryRow_def Let_def)
qed

theorem create_then_resolve_witness:
  "shortenURL example_isURL env_ok (Some (create_request ''https://example.com'' [] 0)) world0 =
     (JSON StatusOK (url_json \<lparr>ID = 1, Original = ''https://example.com'', Short = ''dkryFM'',
        QRCode = ''qrcodes/dkryFM.png'', CustomShort = [], ExpirationDate = 0,
        AccessCount = 0\<rparr>),
      snd (shortenURL example_isURL env_ok
             (Some (create_request ''https://example.com'' [] 0)) world0)) \<and>
   ExpirationDate (create_request ''https://example.com'' [] 0) = 0 \<and>
   \<not> cache_set_fails env_ok \<and> \<not> cache_get_fails env_ok \<and> \<not> db_query_fails env_ok \<and>
   fst (redirectURL env_ok ''dkryFM''
          (snd (shortenURL example_isURL env_ok
                  (Some (create_request ''https://example.com'' [] 0)) world0))) =
     Redirect StatusMovedPermanently ''https://example.com''"
proof -
  let ?u = "create_request ''https://example.com'' [] 0"
  let ?l = "\<lparr>ID = 1, Original = ''https://example.com'', Short = ''dkryFM'',
        QRCode = ''qrcodes/dkryFM.png'', CustomShort = [], ExpirationDate = 0,
        AccessCount = 0\<rparr>"
  let ?w1 = "snd (shortenURL example_isURL env_ok (Some ?u) world0)"
  have "fst (shortenURL example_isURL env_ok (Some ?u) world0) = JSON StatusOK (url_json ?l)"
    by code_simp
  then have h1: "shortenURL example_isURL env_ok (Some ?u) world0 = (JSON StatusOK (url_json ?l), ?w1)"
    by (simp add: prod_eq_iff)
  have h2: "ExpirationDate ?u = 0"
    by (simp add: create_request_def)
  have h3: "\<not> cache_set_fails env_ok" and h4: "\<not> cache_get_fails env_ok"
    and h5: "\<not> db_query_fails env_ok"
    by (simp_all add: env_ok_def)
  show ?thesis
    using h1 h2 h3 h4 h5 create_then_resolve [OF h1 h2 h3 h4 h5]
    by (simp add: create_request_def)
qed

subsection \<open>Access counts\<close>

text \<open>
  C8, as the code has it. A resolution whose \<^verbatim>\<open>UPDATE\<close> fails still redirects, and
  the count stays where it was: one successful resolution, count 0 before and after.
\<close>

theorem failed_update_counterexample:
  "map access_count (db world_plain_cached) = [0] \<and>
   fst (redirectURL (env_ok\<lparr>db_exec_fails := True\<rparr>) ''ex1'' world_plain_cached) =
     Redirect StatusMovedPermanently ''https://example.com'' \<and>
   map access_count (db (snd (redirectURL (env_ok\<lparr>db_exec_fails := True\<rparr>) ''ex1''
                                 world_plain_cached))) = [0]"
  by code_simp

lemma find_update:
  "find (matches s) (map (\<lambda>r. if matches s r then r\<lparr>access_count := n\<rparr> else r) rows) =
     map_option (\<lambda>r. r\<lparr>access_count := n\<rparr>) (find (matches s) rows)"
  by (induction rows) (auto simp: matches_def)

lemma redirectURL_counts:
  assumes "is_redirect (fst (redirectURL e sh w))"
    and "\<not> db_exec_fails e"
    and "find (matches sh) (db w) = Some r"
  shows "find (matches sh) (db (snd (redirectURL e sh w))) =
           Some (r\<lparr>access_count := access_count r + 1\<rparr>)"
  using assms
  by (auto simp: redirectURL_def db_QueryRow_def db_Update_def rdb_Set_def log_Println_def
        is_redirect_def Let_def find_update
      split: cache_result.splits if_splits option.splits)

text \<open>
  C8, amended. After N sequential resolutions of the same token that each redirect and
  whose \<^verbatim>\<open>UPDATE\<close> of the counter does not fail, the link the token selects has its
  count before plus N (in Go's 64-bit \<^verbatim>\<open>int\<close>) and is otherwise as it was, whichever
  of the hit and the miss path each resolution took.
\<close>

theorem access_count_after_resolutions:
  "list_all is_redirect (fst (resolutions es sh w)) \<Longrightarrow>
   list_all (\<lambda>e. \<not> db_exec_fails e) es \<Longrightarrow>
   find (matches sh) (db w) = Some r \<Longrightarrow>
   find (matches sh) (db (snd (resolutions es sh w))) =
     Some (r\<lparr>access_count := access_count r + of_nat (length es)\<rparr>)"
proof (induction es arbitrary: w r)
  case Nil
  then show ?case by simp
next
  case (Cons e es)
  let ?w' = "snd (redirectURL e sh w)"
  let ?r' = "r\<lparr>access_count := access_count r + 1\<rparr>"
  have red: "is_redirect (fst (redirectURL e sh w))"
    and rest: "list_all is_redirect (fst (resolutions es sh ?w'))"
    using Cons.prems(1) by (simp_all add: split_beta Let_def)
  have ok: "\<not> db_exec_fails e" and oks: "list_all (\<lambda>e. \<not> db_exec_fails e) es"
    using Cons.prems(2) by simp_all
  have f: "find (matches sh) (db ?w') = Some ?r'"
    using redirectURL_counts [OF red ok Cons.prems(3)] .
  have "find (matches sh) (db (snd (resolutions es sh ?w'))) =
          Some (?r'\<lparr>access_count := access_count ?r' + of_nat (length es)\<rparr>)"
    using Cons.IH [OF rest oks f] .
  then show ?case by (simp add: split_beta Let_def add.assoc add.commute)
qed

theorem access_count_after_resolutions_witness:
  "list_all is_redirect (fst (resolutions [env_ok, env_ok, env_ok] ''ex1'' world_future_cold)) \<and>
   list_all (\<lambda>e. \<not> db_exec_fails e) [env_ok, env_ok, env_ok] \<and>
   rdb world_future_cold ''ex1'' = None \<and>
   find (matches ''ex1'') (db world_future_cold) =
     Some \<lparr>row_id = 1, original = ''https://example.com'', short = ''ex1'',
            qr_code = ''qrcodes/ex1.png'', custom_short = Some ''ex1'',
            expiration_date = Some t_2030, access_count = 0\<rparr> \<and>
   find (matches ''ex1'')
        (db (snd (resolutions [env_ok, env_ok, env_ok] ''ex1'' world_future_cold))) =
     Some \<lparr>row_id = 1, original = ''https://example.com'', short = ''ex1'',
            qr_code = ''qrcodes/ex1.png'', custom_short = Some ''ex1'',
            expiration_date = Some t_2030, access_count = 3\<rparr>"
proof -
  let ?r = "\<lparr>row_id = 1, original = ''https://example.com'', short = ''ex1'',
            qr_code = ''qrcodes/ex1.png'', custom_short = Some ''ex1'',
            expiration_date = Some t_2030, access_count = 0\<rparr>"
  have h1: "list_all is_redirect (fst (resolutions [env_ok, env_ok, env_ok] ''ex1'' world_future_cold))"
    by code_simp
  have h2: "list_all (\<lambda>e. \<not> db_exec_fails e) [env_ok, env_ok, env_ok]"
    by (simp add: env_ok_def)
  have h3: "find (matches ''ex1'') (db world_future_cold) = Some ?r"
    by code_simp
  have h4: "rdb world_future_cold ''ex1'' = None"
    by code_simp
  show ?thesis
    using h1 h2 h3 h4 access_count_after_resolutions [OF h1 h2 h3] by simp
qed

end
